theory Spec2Isabelle
  imports Main
begin

section \<open>JavaScript values\<close>

text \<open>
  KDStateManager is untyped JavaScript: a state, a template, a callback and every element
  of the store is an arbitrary value. Numbers are modelled as integers (the indices and
  counters of the class; fractions, NaN and the infinities are outside the model). An
  object is the list of its own enumerable properties in enumeration order, each key
  once; a function is opaque and known by an identifier only.
\<close>

datatype jsval =
    JUndefined
  | JNull
  | JBool bool
  | JNum int
  | JStr string
  | JArr "jsval list"
  | JObj "(string \<times> jsval) list"
  | JFun nat

datatype error = TypeError | SyntaxError

text \<open>The outcome of a call: the value it returns, or the exception it throws.\<close>

type_synonym outcome = "error + jsval"

text \<open>ToBoolean, as used by \<open>if (v)\<close>, \<open>v ? a : b\<close> and \<open>a || b\<close>.\<close>

fun truthy :: "jsval \<Rightarrow> bool" where
  "truthy JUndefined = False"
| "truthy JNull = False"
| "truthy (JBool b) = b"
| "truthy (JNum n) = (n \<noteq> 0)"
| "truthy (JStr s) = (s \<noteq> [])"
| "truthy (JArr xs) = True"
| "truthy (JObj ps) = True"
| "truthy (JFun f) = True"

text \<open>\<open>typeof v === 'function'\<close>.\<close>

fun is_function :: "jsval \<Rightarrow> bool" where
  "is_function (JFun f) = True"
| "is_function v = False"

subsection \<open>Property keys and property reads\<close>

text \<open>The decimal numeral of an array index, which is the property key of the element.\<close>

fun show_nat :: "nat \<Rightarrow> string" where
  "show_nat n =
     (if n < 10 then [char_of (48 + n)]
      else show_nat (n div 10) @ [char_of (48 + n mod 10)])"

declare show_nat.simps [simp del]

definition array_index :: "string \<Rightarrow> nat \<Rightarrow> nat option" where
  "array_index k n = find (\<lambda>i. show_nat i = k) [0..<n]"

text \<open>
  \<open>Object.keys(v)\<close>: the own enumerable keys. It throws a TypeError on \<open>undefined\<close>
  and \<open>null\<close>.
\<close>

fun object_keys :: "jsval \<Rightarrow> error + string list" where
  "object_keys JUndefined = Inl TypeError"
| "object_keys JNull = Inl TypeError"
| "object_keys (JObj ps) = Inr (map fst ps)"
| "object_keys (JArr xs) = Inr (map show_nat [0..<length xs])"
| "object_keys (JStr s) = Inr (map show_nat [0..<length s])"
| "object_keys v = Inr []"

text \<open>
  \<open>v[key]\<close> on the own properties of \<open>v\<close>; a missing key reads as \<open>undefined\<close>.
  Properties inherited from the built-in prototypes (\<open>toString\<close>, \<open>constructor\<close>, ...)
  are outside the model. The class reads properties only of values it has already tested
  (a truthy copy of a record, a template that \<open>Object.keys\<close> accepted), so the TypeError
  of a read on \<open>undefined\<close> or \<open>null\<close> is never reached; the model reads
  \<open>undefined\<close> there.
\<close>

fun get_prop :: "jsval \<Rightarrow> string \<Rightarrow> jsval" where
  "get_prop (JObj ps) k = (case map_of ps k of Some v \<Rightarrow> v | None \<Rightarrow> JUndefined)"
| "get_prop (JArr xs) k =
     (if k = ''length'' then JNum (int (length xs))
      else case array_index k (length xs) of Some i \<Rightarrow> xs ! i | None \<Rightarrow> JUndefined)"
| "get_prop (JStr s) k =
     (if k = ''length'' then JNum (int (length s))
      else case array_index k (length s) of Some i \<Rightarrow> JStr [s ! i] | None \<Rightarrow> JUndefined)"
| "get_prop v k = JUndefined"

subsection \<open>deepCopy\<close>

text \<open>
  \<open>const deepCopy = obj => JSON.parse(JSON.stringify(obj))\<close>.
  \<open>JSON.stringify\<close> has no text for \<open>undefined\<close> and for a function: inside an array
  it writes \<open>null\<close> in their place, inside an object it leaves the property out, and at
  the top it returns \<open>undefined\<close>, on which \<open>JSON.parse\<close> throws a SyntaxError.
\<close>

fun json_absent :: "jsval \<Rightarrow> bool" where
  "json_absent JUndefined = True"
| "json_absent (JFun f) = True"
| "json_absent v = False"

fun json_copy :: "jsval \<Rightarrow> jsval"
  and json_copy_elems :: "jsval list \<Rightarrow> jsval list"
  and json_copy_props :: "(string \<times> jsval) list \<Rightarrow> (string \<times> jsval) list" where
  "json_copy (JArr xs) = JArr (json_copy_elems xs)"
| "json_copy (JObj ps) = JObj (json_copy_props ps)"
| "json_copy JUndefined = JUndefined"
| "json_copy JNull = JNull"
| "json_copy (JBool b) = JBool b"
| "json_copy (JNum n) = JNum n"
| "json_copy (JStr s) = JStr s"
| "json_copy (JFun f) = JFun f"
| "json_copy_elems [] = []"
| "json_copy_elems (x # xs) =
     (if json_absent x then JNull else json_copy x) # json_copy_elems xs"
| "json_copy_props [] = []"
| "json_copy_props (p # ps) =
     (if json_absent (snd p) then json_copy_props ps
      else (fst p, json_copy (snd p)) # json_copy_props ps)"

definition deepCopy :: "jsval \<Rightarrow> outcome" where
  "deepCopy obj = (if json_absent obj then Inl SyntaxError else Inr (json_copy obj))"

subsection \<open>Array.prototype.splice\<close>

text \<open>
  \<open>xs.splice(start, deleteCount, ...items)\<close> on an integer \<open>start\<close>: a negative start
  counts from the end, the start is clamped to the array and the delete count to what
  is left after it.
\<close>

definition splice :: "'a list \<Rightarrow> int \<Rightarrow> int \<Rightarrow> 'a list \<Rightarrow> 'a list" where
  "splice xs start deleteCount items =
     (let len = int (length xs);
          st = (if start < 0 then max (len + start) 0 else min start len);
          dc = min (max deleteCount 0) (len - st)
      in take (nat st) xs @ items @ drop (nat (st + dc)) xs)"

section \<open>The manager's state\<close>

text \<open>
  \<open>_state\<close> holds the template, the store and the current index. The handlers of the
  template and the completion callbacks are the caller's functions: what the class does
  with them is to call them, so the model records every such call, in order, in
  \<open>calls\<close>. The functions are taken to return and not to re-enter the manager.

  The dev-mode helpers (\<open>dev.start\<close>, \<open>dev.end\<close>, \<open>dev.log\<close>, \<open>dev.error\<close>) write
  to the console and to the error sink \<open>onError\<close>, which is a function unless the
  caller replaces it by something else; they change nothing of \<open>_state\<close> and are not
  part of the model.
\<close>

datatype event = Invoke nat jsval

record params =
  dev :: jsval
  store :: jsval
  currentIndex :: "int option"

record state =
  template :: jsval
  store :: "jsval list"
  currentIndex :: int
  calls :: "event list"

text \<open>
  \<open>const handleCB = (cb, success) => typeof cb === 'function' ? cb(success) : dev.log(...)\<close>
\<close>

definition handleCB :: "jsval \<Rightarrow> jsval \<Rightarrow> state \<Rightarrow> state" where
  "handleCB cb success s =
     (case cb of JFun f \<Rightarrow> s\<lparr>calls := calls s @ [Invoke f success]\<rparr> | _ \<Rightarrow> s)"

text \<open>
  \<open>checkTemplate\<close>: \<open>typeof template === 'object'\<close> holds of objects, arrays and
  \<open>null\<close>, and \<open>Object.values(null)\<close> throws a TypeError.
\<close>

fun checkTemplate :: "jsval \<Rightarrow> error + bool" where
  "checkTemplate JNull = Inl TypeError"
| "checkTemplate (JObj ps) = Inr (list_all is_function (map snd ps))"
| "checkTemplate (JArr xs) = Inr (list_all is_function xs)"
| "checkTemplate v = Inr False"

text \<open>\<open>_state.store[index]\<close> for an integer index: \<open>undefined\<close> outside the array.\<close>

definition store_at :: "state \<Rightarrow> int \<Rightarrow> jsval" where
  "store_at s index =
     (if 0 \<le> index \<and> index < int (length (store s)) then store s ! nat index
      else JUndefined)"

text \<open>\<open>this.index.last\<close>, \<open>this.index.first\<close>, \<open>this.index.current\<close>.\<close>

definition index_last :: "state \<Rightarrow> int" where
  "index_last s = int (length (store s)) - 1"

definition index_first :: "state \<Rightarrow> int" where
  "index_first s = 0"

definition index_current :: "state \<Rightarrow> int" where
  "index_current s = currentIndex s"

text \<open>
  \<open>this.index.set\<close>: the value of the assignment on success; on failure the result of
  \<open>dev.error\<close>, which reports to the error sink and returns \<open>undefined\<close>.
\<close>

definition index_set :: "int \<Rightarrow> state \<Rightarrow> jsval \<times> state" where
  "index_set index s =
     (if truthy (store_at s index) then (JNum index, s\<lparr>currentIndex := index\<rparr>)
      else (JUndefined, s))"

section \<open>The constructor\<close>

text \<open>
  \<open>constructor(template, params)\<close>. The first thing evaluated is \<open>params.dev\<close>,
  a TypeError when \<open>params\<close> is \<open>undefined\<close> (\<open>None\<close> here). A field the caller left
  out of \<open>params\<close> reads \<open>undefined\<close>; \<open>currentIndex\<close> is a number when present
  (\<open>None\<close> stands for \<open>undefined\<close> and \<open>null\<close>, which \<open>!= undefined\<close> treats alike).
\<close>

definition constructor :: "jsval \<Rightarrow> params option \<Rightarrow> error + state" where
  "constructor tmpl ps =
     (case ps of
        None \<Rightarrow> Inl TypeError
      | Some p \<Rightarrow>
          (case checkTemplate tmpl of
             Inl e \<Rightarrow> Inl e
           | Inr ok \<Rightarrow>
               Inr \<lparr> template = (if ok then tmpl else JObj []),
                     store = (case params.store p of JArr xs \<Rightarrow> xs | _ \<Rightarrow> []),
                     currentIndex =
                       (case params.currentIndex p of
                          Some c \<Rightarrow> if c > - 1 then c else - 1
                        | None \<Rightarrow> - 1),
                     calls = [] \<rparr>))"

section \<open>The private operations\<close>

text \<open>
  Every operation takes the state and returns its outcome with the state it leaves
  behind; an exception keeps the mutations made before it was thrown.
\<close>

definition private_template :: "jsval \<Rightarrow> jsval \<Rightarrow> state \<Rightarrow> outcome \<times> state" where
  "private_template tmpl callback s =
     (case deepCopy tmpl of
        Inl e \<Rightarrow> (Inl e, s)
      | Inr t \<Rightarrow>
          (case checkTemplate t of
             Inl e \<Rightarrow> (Inl e, s)
           | Inr ok \<Rightarrow>
               if ok then (Inr t, handleCB callback t (s\<lparr>template := t\<rparr>))
               else (Inr (JBool False), handleCB callback (JBool False) s)))"

definition private_store :: "jsval \<Rightarrow> jsval \<Rightarrow> state \<Rightarrow> outcome \<times> state" where
  "private_store st callback s =
     (case deepCopy st of
        Inl e \<Rightarrow> (Inl e, s)
      | Inr c \<Rightarrow>
          (case c of
             JArr xs \<Rightarrow>
               (let s1 = s\<lparr>store := xs\<rparr>;
                    s2 = s1\<lparr>currentIndex := index_last s1\<rparr>
                in (Inr c, handleCB callback c s2))
           | _ \<Rightarrow> (Inr (JBool False), handleCB callback (JBool False) s)))"

definition private_append :: "jsval \<Rightarrow> jsval \<Rightarrow> state \<Rightarrow> outcome \<times> state" where
  "private_append st callback s =
     (case deepCopy st of
        Inl e \<Rightarrow> (Inl e, s)
      | Inr c \<Rightarrow>
          (let s1 = s\<lparr>store := store s @ [c]\<rparr>;
               s2 = s1\<lparr>currentIndex := int (length (store s1)) - 1\<rparr>
           in (Inr c, handleCB callback c s2)))"

text \<open>
  The loop of \<open>recall\<close> over the keys of the template:
  \<open>if (_state.template[key]) _state.template[key](success[key])\<close>.
  Calling a truthy value that is not a function throws a TypeError and ends the loop.
\<close>

fun dispatch :: "jsval \<Rightarrow> jsval \<Rightarrow> string list \<Rightarrow> event list \<Rightarrow> error option \<times> event list" where
  "dispatch t success [] tr = (None, tr)"
| "dispatch t success (key # keys) tr =
     (case get_prop t key of
        JFun f \<Rightarrow> dispatch t success keys (tr @ [Invoke f (get_prop success key)])
      | h \<Rightarrow> if truthy h then (Some TypeError, tr) else dispatch t success keys tr)"

text \<open>The calls that one round of the loop makes, when it does not throw.\<close>

definition handler_call :: "jsval \<Rightarrow> jsval \<Rightarrow> string \<Rightarrow> event list" where
  "handler_call t success key =
     (case get_prop t key of JFun f \<Rightarrow> [Invoke f (get_prop success key)] | _ \<Rightarrow> [])"

definition private_recall :: "int \<Rightarrow> jsval \<Rightarrow> state \<Rightarrow> outcome \<times> state" where
  "private_recall index callback s =
     (if truthy (store_at s index) then
        (let s1 = s\<lparr>currentIndex := index\<rparr> in
         case deepCopy (store_at s1 index) of
           Inl e \<Rightarrow> (Inl e, s1)
         | Inr success \<Rightarrow>
             (case object_keys (template s1) of
                Inl e \<Rightarrow> (Inl e, s1)
              | Inr keys \<Rightarrow>
                  (case dispatch (template s1) success keys (calls s1) of
                     (Some e, tr) \<Rightarrow> (Inl e, s1\<lparr>calls := tr\<rparr>)
                   | (None, tr) \<Rightarrow>
                       (Inr success, handleCB callback success (s1\<lparr>calls := tr\<rparr>)))))
      else (Inr (JBool False), handleCB callback (JBool False) s))"

definition private_delete :: "int \<Rightarrow> jsval \<Rightarrow> state \<Rightarrow> outcome \<times> state" where
  "private_delete index callback s =
     (if truthy (store_at s index) then
        (case deepCopy (store_at s index) of
           Inl e \<Rightarrow> (Inl e, s)
         | Inr success \<Rightarrow>
             (let s1 = s\<lparr>store := splice (store s) index 1 []\<rparr>;
                  s2 = s1\<lparr>currentIndex := currentIndex s1 - 1\<rparr>
              in (Inr success, handleCB callback success s2)))
      else (Inr (JBool False), handleCB callback (JBool False) s))"

definition private_insert :: "int \<Rightarrow> jsval \<Rightarrow> jsval \<Rightarrow> state \<Rightarrow> outcome \<times> state" where
  "private_insert index st0 callback s =
     (case deepCopy st0 of
        Inl e \<Rightarrow> (Inl e, s)
      | Inr st \<Rightarrow>
          if truthy (store_at s index) \<or> index = int (length (store s)) then
            (let s1 = s\<lparr>store := splice (store s) index 0 [st]\<rparr>;
                 s2 = (if index < currentIndex s1
                       then s1\<lparr>currentIndex := currentIndex s1 + 1\<rparr> else s1)
             in (Inr st, handleCB callback st s2))
          else if index > - 1 then
            (let s1 = s\<lparr>store := store s @ [st]\<rparr>;
                 s2 = s1\<lparr>currentIndex := int (length (store s1))\<rparr>
             in (Inr st, handleCB callback st s2))
          else (Inr (JBool False), handleCB callback (JBool False) s))"

text \<open>
  \<open>replace\<close> deletes with the callback \<open>_ => {}\<close>, a function of the class itself that
  does nothing: no call of a caller's function is recorded for it, which is what
  \<open>handleCB\<close> does with a callback that is not a caller's function. When the delete
  fails, \<open>replace\<close> ends without a \<open>return\<close>: its value is \<open>undefined\<close>.
\<close>

definition private_replace :: "int \<Rightarrow> jsval \<Rightarrow> jsval \<Rightarrow> state \<Rightarrow> outcome \<times> state" where
  "private_replace index st callback s =
     (case private_delete index JUndefined s of
        (Inl e, s1) \<Rightarrow> (Inl e, s1)
      | (Inr success, s1) \<Rightarrow>
          if truthy success then private_insert index st callback s1
          else (Inr JUndefined, s1))"

definition private_undo :: "jsval \<Rightarrow> state \<Rightarrow> outcome \<times> state" where
  "private_undo callback s =
     (if currentIndex s > 0 then private_recall (currentIndex s - 1) callback s
      else (Inr (JBool False), s))"

definition private_redo :: "jsval \<Rightarrow> state \<Rightarrow> outcome \<times> state" where
  "private_redo callback s =
     (if currentIndex s < index_last s then private_recall (currentIndex s + 1) callback s
      else (Inr (JBool False), s))"

section \<open>The public operations\<close>

text \<open>
  Each public method wraps the private one between \<open>dev.start\<close> and \<open>dev.end\<close>,
  which write to the console and to the error sink only. \<open>append\<close> and \<open>recall\<close>
  end with \<open>return success\<close>; \<open>delete\<close>, \<open>insert\<close>, \<open>replace\<close>, \<open>undo\<close> and
  \<open>redo\<close> have no \<open>return\<close>, so their value is \<open>undefined\<close>; \<open>template\<close> and
  \<open>store\<close> return a copy of what the state holds after the call.
\<close>

definition returns_nothing :: "outcome \<times> state \<Rightarrow> outcome \<times> state" where
  "returns_nothing r = (case r of (Inl e, s) \<Rightarrow> (Inl e, s) | (Inr v, s) \<Rightarrow> (Inr JUndefined, s))"

definition this_template :: "jsval \<Rightarrow> jsval \<Rightarrow> state \<Rightarrow> outcome \<times> state" where
  "this_template tmpl callback s =
     (if truthy tmpl then
        (case private_template tmpl callback s of
           (Inl e, s1) \<Rightarrow> (Inl e, s1)
         | (Inr success, s1) \<Rightarrow> (deepCopy (template s1), s1))
      else (deepCopy (template s), s))"

definition this_store :: "jsval \<Rightarrow> jsval \<Rightarrow> state \<Rightarrow> outcome \<times> state" where
  "this_store st callback s =
     (if truthy st then
        (case private_store st callback s of
           (Inl e, s1) \<Rightarrow> (Inl e, s1)
         | (Inr success, s1) \<Rightarrow> (deepCopy (JArr (store s1)), s1))
      else (deepCopy (JArr (store s)), s))"

definition this_append :: "jsval \<Rightarrow> jsval \<Rightarrow> state \<Rightarrow> outcome \<times> state" where
  "this_append st callback s = private_append st callback s"

definition this_recall :: "int \<Rightarrow> jsval \<Rightarrow> state \<Rightarrow> outcome \<times> state" where
  "this_recall index callback s = private_recall index callback s"

definition this_delete :: "int \<Rightarrow> jsval \<Rightarrow> state \<Rightarrow> outcome \<times> state" where
  "this_delete index callback s = returns_nothing (private_delete index callback s)"

definition this_insert :: "int \<Rightarrow> jsval \<Rightarrow> jsval \<Rightarrow> state \<Rightarrow> outcome \<times> state" where
  "this_insert index st callback s = returns_nothing (private_insert index st callback s)"

definition this_replace :: "int \<Rightarrow> jsval \<Rightarrow> jsval \<Rightarrow> state \<Rightarrow> outcome \<times> state" where
  "this_replace index st callback s = returns_nothing (private_replace index st callback s)"

definition this_undo :: "jsval \<Rightarrow> state \<Rightarrow> outcome \<times> state" where
  "this_undo callback s = returns_nothing (private_undo callback s)"

definition this_redo :: "jsval \<Rightarrow> state \<Rightarrow> outcome \<times> state" where
  "this_redo callback s = returns_nothing (private_redo callback s)"

section \<open>The cursor invariant\<close>

text \<open>
  The current index is a valid index into the store, or \<open>-1\<close> when the store is empty.
\<close>

definition cursor_valid :: "state \<Rightarrow> bool" where
  "cursor_valid s =
     (if store s = [] then currentIndex s = - 1
      else 0 \<le> currentIndex s \<and> currentIndex s < int (length (store s)))"

section \<open>Example states\<close>

text \<open>Three state objects, and a manager that holds no state yet.\<close>

definition rec_a :: jsval where
  "rec_a = JObj [(''x'', JNum 1)]"

definition rec_b :: jsval where
  "rec_b = JObj [(''x'', JNum 2)]"

definition rec_c :: jsval where
  "rec_c = JObj [(''x'', JNum 3)]"

definition fresh :: state where
  "fresh = \<lparr> template = JObj [], store = [], currentIndex = - 1, calls = [] \<rparr>"

section \<open>Basic facts\<close>

lemma handleCB_store [simp]: "store (handleCB cb v s) = store s"
  by (simp add: handleCB_def split: jsval.splits)

lemma handleCB_currentIndex [simp]: "currentIndex (handleCB cb v s) = currentIndex s"
  by (simp add: handleCB_def split: jsval.splits)

lemma handleCB_template [simp]: "template (handleCB cb v s) = template s"
  by (simp add: handleCB_def split: jsval.splits)

lemma handleCB_no_function [simp]: "\<not> is_function cb \<Longrightarrow> handleCB cb v s = s"
  by (cases cb) (simp_all add: handleCB_def)

lemma truthy_store_at: "truthy (store_at s i) \<Longrightarrow> 0 \<le> i \<and> i < int (length (store s))"
  by (simp add: store_at_def split: if_splits)

lemma store_at_in_range:
  "0 \<le> i \<Longrightarrow> i < int (length (store s)) \<Longrightarrow> store_at s i = store s ! nat i"
  by (simp add: store_at_def)

lemma store_at_out_of_range:
  "i < 0 \<or> int (length (store s)) \<le> i \<Longrightarrow> store_at s i = JUndefined"
  by (auto simp add: store_at_def)

lemma splice_insert:
  "0 \<le> i \<Longrightarrow> i \<le> int (length xs) \<Longrightarrow>
   splice xs i 0 [x] = take (nat i) xs @ [x] @ drop (nat i) xs"
  by (simp add: splice_def Let_def min_def max_def)

lemma splice_delete:
  "0 \<le> i \<Longrightarrow> i < int (length xs) \<Longrightarrow>
   splice xs i 1 [] = take (nat i) xs @ drop (Suc (nat i)) xs"
  by (simp add: splice_def Let_def min_def max_def nat_add_distrib)

lemma removed_nth:
  assumes "i < length xs"
  shows "length (take i xs @ drop (Suc i) xs) = length xs - 1"
    and "j < i \<Longrightarrow> (take i xs @ drop (Suc i) xs) ! j = xs ! j"
    and "i \<le> j \<Longrightarrow> j < length xs - 1 \<Longrightarrow> (take i xs @ drop (Suc i) xs) ! j = xs ! Suc j"
  using assms by (auto simp add: nth_append min_def)

lemma fresh_is_constructed:
  "constructor JUndefined (Some \<lparr> dev = JUndefined, store = JUndefined, currentIndex = None \<rparr>)
     = Inr fresh"
  by (simp add: constructor_def fresh_def)

lemma store_at_currentIndex [simp]: "store_at (s\<lparr>currentIndex := c\<rparr>) i = store_at s i"
  by (simp add: store_at_def)

lemma truthy_json_copy [simp]: "truthy (json_copy v) = truthy v"
  by (cases v) simp_all

lemma deepCopy_truthy:
  "truthy v \<Longrightarrow> \<not> is_function v \<Longrightarrow> deepCopy v = Inr (json_copy v)"
  by (cases v) (simp_all add: deepCopy_def)

subsection \<open>Recall\<close>

lemma recall_store [simp]: "store (snd (private_recall i cb s)) = store s"
  by (simp add: private_recall_def Let_def split: sum.splits prod.splits option.splits)

lemma recall_template [simp]: "template (snd (private_recall i cb s)) = template s"
  by (simp add: private_recall_def Let_def split: sum.splits prod.splits option.splits)

lemma recall_cursor:
  "truthy (store_at s i) \<Longrightarrow> currentIndex (snd (private_recall i cb s)) = i"
  by (simp add: private_recall_def Let_def split: sum.splits prod.splits option.splits)

lemma recall_rejects:
  "\<not> truthy (store_at s i) \<Longrightarrow>
   private_recall i cb s = (Inr (JBool False), handleCB cb (JBool False) s)"
  by (simp add: private_recall_def)

lemma recall_success_index:
  assumes "fst (private_recall i cb s) = Inr v" and "truthy v"
  shows "truthy (store_at s i)"
proof (rule ccontr)
  assume "\<not> truthy (store_at s i)"
  then have "fst (private_recall i cb s) = Inr (JBool False)"
    by (simp add: recall_rejects)
  with assms show False by auto
qed

text \<open>
  The key of an array element is never \<open>length\<close>, and the key of an element reads an
  element.
\<close>

lemma last_show_nat: "last (show_nat n) = char_of (48 + n mod 10)"
  by (subst show_nat.simps) simp

lemma show_nat_not_length: "show_nat n \<noteq> ''length''"
proof
  assume "show_nat n = ''length''"
  then have "last (show_nat n) = CHR ''h''" by simp
  then have "char_of (48 + n mod 10) = CHR ''h''" by (simp only: last_show_nat)
  then have "of_char (char_of (48 + n mod 10) :: char) = (of_char (CHR ''h'') :: nat)" by simp
  then show False by (simp add: of_char_of)
qed

lemma array_index_show_nat:
  assumes "i < n"
  shows "\<exists>j. array_index (show_nat i) n = Some j \<and> j < n"
proof (cases "array_index (show_nat i) n")
  case None
  then have "\<not> (\<exists>x. x \<in> set [0..<n] \<and> show_nat x = show_nat i)"
    by (simp add: array_index_def find_None_iff)
  with assms show ?thesis by auto
next
  case (Some j)
  then have "j \<in> set [0..<n]"
    unfolding array_index_def find_Some_iff by (metis nth_mem)
  with Some show ?thesis by simp
qed

text \<open>A template that passed \<open>checkTemplate\<close> holds a function under each of its keys.\<close>

lemma checked_template_keys:
  assumes "checkTemplate t = Inr True"
  shows "\<exists>ks. object_keys t = Inr ks \<and> (\<forall>k \<in> set ks. is_function (get_prop t k))"
proof (cases t)
  case (JObj ps)
  have "is_function (get_prop (JObj ps) k)" if "k \<in> set (map fst ps)" for k
  proof -
    from that obtain v where v: "map_of ps k = Some v"
      by (metis map_of_eq_None_iff not_Some_eq set_map)
    then have "(k, v) \<in> set ps" by (rule map_of_SomeD)
    moreover have "\<forall>p \<in> set ps. is_function (snd p)"
      using assms JObj by (simp add: list_all_iff)
    ultimately show ?thesis using v by auto
  qed
  with JObj show ?thesis by simp
next
  case (JArr xs)
  have all: "\<forall>x \<in> set xs. is_function x"
    using assms JArr by (simp add: list_all_iff)
  have "is_function (get_prop (JArr xs) k)" if "k \<in> set (map show_nat [0..<length xs])" for k
  proof -
    from that obtain i where i: "k = show_nat i" "i < length xs" by auto
    then obtain j where j: "array_index k (length xs) = Some j" "j < length xs"
      using array_index_show_nat by blast
    with i all show ?thesis by (simp add: show_nat_not_length)
  qed
  with JArr show ?thesis by simp
qed (use assms in simp_all)

lemma dispatch_functions:
  "\<forall>k \<in> set ks. is_function (get_prop t k) \<Longrightarrow> fst (dispatch t success ks tr) = None"
proof (induction ks arbitrary: tr)
  case Nil
  then show ?case by simp
next
  case (Cons k ks)
  then obtain f where "get_prop t k = JFun f"
    by (cases "get_prop t k") auto
  with Cons show ?case by simp
qed

text \<open>
  With a checked template, \<open>recall\<close> of a truthy record that is not a function returns
  the copy of the record.
\<close>

lemma recall_succeeds:
  assumes "truthy (store_at s i)" and "\<not> is_function (store_at s i)"
    and "checkTemplate (template s) = Inr True"
  shows "fst (private_recall i cb s) = Inr (json_copy (store_at s i))"
proof -
  obtain ks where ks: "object_keys (template s) = Inr ks"
      "\<forall>k \<in> set ks. is_function (get_prop (template s) k)"
    using checked_template_keys [OF assms(3)] by blast
  obtain e tr where d: "dispatch (template s) (json_copy (store_at s i)) ks (calls s) = (e, tr)"
    by (cases "dispatch (template s) (json_copy (store_at s i)) ks (calls s)")
  with dispatch_functions [OF ks(2), of "json_copy (store_at s i)" "calls s"] have "e = None"
    by simp
  with d ks assms show ?thesis
    by (simp add: private_recall_def deepCopy_truthy)
qed

section \<open>Insert: which indices are accepted\<close>

text \<open>
  C1. The claim: for a store of length L, \<open>insert\<close> fails without mutation for every
  index outside [0, L] and succeeds exactly for the indices in [0, L].

  The code rejects negative indices only. Its second branch, \<open>else if (index > -1)\<close>,
  takes every other index that the first branch did not: the record is pushed at the
  tail. On the empty store, \<open>insert(1, {x: 1})\<close> returns the copy and leaves a store of
  one record.
\<close>

theorem insert_beyond_length_counterexample:
  "\<not> (0 \<le> (1::int) \<and> (1::int) \<le> int (length (store fresh))) \<and>
   private_insert 1 rec_a JUndefined fresh =
     (Inr rec_a, \<lparr> template = JObj [], store = [rec_a], currentIndex = 1, calls = [] \<rparr>)"
  by (simp add: private_insert_def deepCopy_def store_at_def fresh_def rec_a_def)

text \<open>
  C1, as the code has it. A negative index fails: the store, the current index and the
  template stay as they are and the result is \<open>false\<close>. Every index from 0 on succeeds
  for a record that \<open>deepCopy\<close> accepts, and adds one record: at \<open>index\<close> when the
  index is the length or a truthy record sits there, at the tail otherwise, so also for
  every index beyond the length. From the length on, the resulting store is the one
  \<open>append\<close> builds.
\<close>

theorem insert_index_policy:
  "(index < 0 \<longrightarrow>
      store (snd (private_insert index r cb s)) = store s \<and>
      currentIndex (snd (private_insert index r cb s)) = currentIndex s \<and>
      template (snd (private_insert index r cb s)) = template s \<and>
      (deepCopy r = Inr st \<longrightarrow> fst (private_insert index r cb s) = Inr (JBool False))) \<and>
   (0 \<le> index \<and> deepCopy r = Inr st \<longrightarrow>
      fst (private_insert index r cb s) = Inr st \<and>
      store (snd (private_insert index r cb s)) =
        (if index = int (length (store s)) \<or> truthy (store_at s index)
         then take (nat index) (store s) @ [st] @ drop (nat index) (store s)
         else store s @ [st]) \<and>
      (int (length (store s)) \<le> index \<longrightarrow>
         store (snd (private_insert index r cb s)) = store (snd (private_append r cb s))))"
proof (intro conjI impI)
  assume neg: "index < 0"
  then have nt: "\<not> truthy (store_at s index)" and ne: "index \<noteq> int (length (store s))"
    by (auto dest: truthy_store_at)
  show "store (snd (private_insert index r cb s)) = store s"
    using neg nt ne by (simp add: private_insert_def split: sum.splits)
  show "currentIndex (snd (private_insert index r cb s)) = currentIndex s"
    using neg nt ne by (simp add: private_insert_def split: sum.splits)
  show "template (snd (private_insert index r cb s)) = template s"
    using neg nt ne by (simp add: private_insert_def split: sum.splits)
  show "fst (private_insert index r cb s) = Inr (JBool False)" if "deepCopy r = Inr st"
    using that neg nt ne by (simp add: private_insert_def)
next
  assume h: "0 \<le> index \<and> deepCopy r = Inr st"
  show "fst (private_insert index r cb s) = Inr st"
    using h by (simp add: private_insert_def Let_def)
  show "store (snd (private_insert index r cb s)) =
        (if index = int (length (store s)) \<or> truthy (store_at s index)
         then take (nat index) (store s) @ [st] @ drop (nat index) (store s)
         else store s @ [st])"
    using h by (auto simp add: private_insert_def Let_def splice_insert dest: truthy_store_at)
  show "store (snd (private_insert index r cb s)) = store (snd (private_append r cb s))"
    if "int (length (store s)) \<le> index"
    using h that
    by (auto simp add: private_insert_def private_append_def Let_def splice_insert
        dest: truthy_store_at)
qed

theorem insert_index_policy_witness:
  "fst (private_insert (- 1) rec_c JUndefined (fresh\<lparr>store := [rec_a, rec_b]\<rparr>))
     = Inr (JBool False) \<and>
   store (snd (private_insert (- 1) rec_c JUndefined (fresh\<lparr>store := [rec_a, rec_b]\<rparr>)))
     = [rec_a, rec_b] \<and>
   fst (private_insert 1 rec_c JUndefined (fresh\<lparr>store := [rec_a, rec_b]\<rparr>)) = Inr rec_c \<and>
   store (snd (private_insert 1 rec_c JUndefined (fresh\<lparr>store := [rec_a, rec_b]\<rparr>)))
     = [rec_a, rec_c, rec_b] \<and>
   store (snd (private_insert 2 rec_c JUndefined (fresh\<lparr>store := [rec_a, rec_b]\<rparr>)))
     = store (snd (private_append rec_c JUndefined (fresh\<lparr>store := [rec_a, rec_b]\<rparr>))) \<and>
   fst (private_insert 5 rec_c JUndefined (fresh\<lparr>store := [rec_a, rec_b]\<rparr>)) = Inr rec_c \<and>
   store (snd (private_insert 5 rec_c JUndefined (fresh\<lparr>store := [rec_a, rec_b]\<rparr>)))
     = [rec_a, rec_b, rec_c]"
  using insert_index_policy [of "- 1" rec_c JUndefined "fresh\<lparr>store := [rec_a, rec_b]\<rparr>" rec_c]
    insert_index_policy [of 1 rec_c JUndefined "fresh\<lparr>store := [rec_a, rec_b]\<rparr>" rec_c]
    insert_index_policy [of 2 rec_c JUndefined "fresh\<lparr>store := [rec_a, rec_b]\<rparr>" rec_c]
    insert_index_policy [of 5 rec_c JUndefined "fresh\<lparr>store := [rec_a, rec_b]\<rparr>" rec_c]
  by (auto simp add: deepCopy_def store_at_def fresh_def rec_a_def rec_b_def rec_c_def)

section \<open>The cursor after an operation\<close>

lemma delete_counterexample_reachable:
  "snd (private_recall 0 JUndefined
     (snd (private_append rec_b JUndefined (snd (private_append rec_a JUndefined fresh)))))
   = fresh\<lparr>store := [rec_a, rec_b], currentIndex := 0\<rparr>"
  by (simp add: private_recall_def private_append_def store_at_def deepCopy_def
      fresh_def rec_a_def rec_b_def)

text \<open>
  C2. The claim: after every successful append, insert, delete, replace, recall, undo or
  redo the current index is a valid index into the store, or \<open>-1\<close> on an empty store.

  \<open>delete\<close> decrements the current index whatever index it deletes. After
  \<open>append(a)\<close>, \<open>append(b)\<close>, \<open>recall(0)\<close> the store is \<open>[a, b]\<close> with the current
  index 0; \<open>delete(1)\<close> then succeeds and leaves \<open>[a]\<close> with the current index \<open>-1\<close>.
\<close>

theorem delete_breaks_cursor_counterexample:
  "cursor_valid (fresh\<lparr>store := [rec_a, rec_b], currentIndex := 0\<rparr>) \<and>
   private_delete 1 JUndefined (fresh\<lparr>store := [rec_a, rec_b], currentIndex := 0\<rparr>) =
     (Inr rec_b, fresh\<lparr>store := [rec_a], currentIndex := - 1\<rparr>) \<and>
   \<not> cursor_valid (fresh\<lparr>store := [rec_a], currentIndex := - 1\<rparr>)"
  by (simp add: cursor_valid_def private_delete_def store_at_def deepCopy_def splice_def
      fresh_def rec_a_def rec_b_def)

lemma recall_success_valid:
  assumes "fst (private_recall i cb s) = Inr v" and "truthy v"
  shows "cursor_valid (snd (private_recall i cb s))"
proof -
  have t: "truthy (store_at s i)" using assms by (rule recall_success_index)
  then have "0 \<le> i \<and> i < int (length (store s))" by (rule truthy_store_at)
  moreover have "currentIndex (snd (private_recall i cb s)) = i" using t by (rule recall_cursor)
  ultimately show ?thesis by (auto simp add: cursor_valid_def)
qed

lemma append_valid:
  "fst (private_append r cb s) = Inr v \<Longrightarrow> cursor_valid (snd (private_append r cb s))"
  by (auto simp add: private_append_def Let_def cursor_valid_def split: sum.splits)

text \<open>
  C2, as the code has it: the invariant holds after every successful append, recall,
  undo and redo. (\<open>append\<close> has no failure value: it succeeds when it returns. The
  other three return \<open>false\<close> on failure and the truthy copy of the record on
  success.) Nothing is said of insert, delete and replace, which move the current index
  by their own rules.
\<close>

theorem cursor_valid_after_navigation:
  "(fst (private_append r cb s) = Inr v \<longrightarrow> cursor_valid (snd (private_append r cb s))) \<and>
   (fst (private_recall i cb s) = Inr v \<and> truthy v \<longrightarrow>
      cursor_valid (snd (private_recall i cb s))) \<and>
   (fst (private_undo cb s) = Inr v \<and> truthy v \<longrightarrow> cursor_valid (snd (private_undo cb s))) \<and>
   (fst (private_redo cb s) = Inr v \<and> truthy v \<longrightarrow> cursor_valid (snd (private_redo cb s)))"
proof (intro conjI impI)
  show "cursor_valid (snd (private_append r cb s))" if "fst (private_append r cb s) = Inr v"
    using that by (rule append_valid)
  show "cursor_valid (snd (private_recall i cb s))"
    if "fst (private_recall i cb s) = Inr v \<and> truthy v"
    using that by (auto intro: recall_success_valid)
  show "cursor_valid (snd (private_undo cb s))"
    if h: "fst (private_undo cb s) = Inr v \<and> truthy v"
  proof (cases "currentIndex s > 0")
    case True
    then have "private_undo cb s = private_recall (currentIndex s - 1) cb s"
      by (simp add: private_undo_def)
    with h show ?thesis by (auto intro: recall_success_valid)
  next
    case False
    with h show ?thesis by (auto simp add: private_undo_def)
  qed
  show "cursor_valid (snd (private_redo cb s))"
    if h: "fst (private_redo cb s) = Inr v \<and> truthy v"
  proof (cases "currentIndex s < index_last s")
    case True
    then have "private_redo cb s = private_recall (currentIndex s + 1) cb s"
      by (simp add: private_redo_def)
    with h show ?thesis by (auto intro: recall_success_valid)
  next
    case False
    with h show ?thesis by (auto simp add: private_redo_def)
  qed
qed

theorem cursor_valid_after_navigation_witness:
  "cursor_valid (snd (private_append rec_a JUndefined fresh)) \<and>
   cursor_valid (snd (private_recall 0 JUndefined
     (fresh\<lparr>store := [rec_a, rec_b], currentIndex := 1\<rparr>))) \<and>
   cursor_valid (snd (private_undo JUndefined
     (fresh\<lparr>store := [rec_a, rec_b], currentIndex := 1\<rparr>))) \<and>
   cursor_valid (snd (private_redo JUndefined
     (fresh\<lparr>store := [rec_a, rec_b], currentIndex := 0\<rparr>)))"
  using cursor_valid_after_navigation
      [of rec_a JUndefined fresh rec_a 0]
    cursor_valid_after_navigation
      [of rec_a JUndefined "fresh\<lparr>store := [rec_a, rec_b], currentIndex := 1\<rparr>" rec_a 0]
    cursor_valid_after_navigation
      [of rec_a JUndefined "fresh\<lparr>store := [rec_a, rec_b], currentIndex := 0\<rparr>" rec_b 0]
  by (simp add: private_append_def private_recall_def private_undo_def private_redo_def
      index_last_def store_at_def deepCopy_def fresh_def rec_a_def rec_b_def)

section \<open>Recall: which handlers are called\<close>

text \<open>
  C3. The claim: on a successful recall the handler of a template key is called exactly
  when the key is also present in the recalled record, so a key of the template alone
  calls nothing.

  The loop of \<open>recall\<close> tests \<open>_state.template[key]\<close>, which is the handler itself, and
  calls it with \<open>success[key]\<close>. With the template \<open>{a: h}\<close> and the record \<open>{b: 2}\<close>,
  \<open>recall(0)\<close> calls \<open>h(undefined)\<close>: the one recorded call is of function 1, the
  handler of \<open>a\<close>.
\<close>

theorem recall_invokes_unmatched_handler:
  "private_recall 0 JUndefined
     \<lparr> template = JObj [(''a'', JFun 1)], store = [JObj [(''b'', JNum 2)]],
       currentIndex = 0, calls = [] \<rparr> =
   (Inr (JObj [(''b'', JNum 2)]),
    \<lparr> template = JObj [(''a'', JFun 1)], store = [JObj [(''b'', JNum 2)]],
      currentIndex = 0, calls = [Invoke 1 JUndefined] \<rparr>)"
  by (simp add: private_recall_def store_at_def deepCopy_def)

section \<open>The template setter\<close>

text \<open>
  C4. The claim: the setter commits a mapping of unary functions as it is, so that a
  later recall goes through its handlers, and rejects every other value.

  The setter checks and commits \<open>deepCopy(template)\<close>, and the JSON round trip leaves
  every function-valued property out. Given \<open>{a: h}\<close> on a manager whose template is
  \<open>{b: g}\<close>, it commits and returns \<open>{}\<close>; the \<open>recall(0)\<close> that follows, of the
  record \<open>{a: 1}\<close>, calls no handler.
\<close>

theorem template_setter_drops_handlers:
  "private_template (JObj [(''a'', JFun 1)]) JUndefined
     \<lparr> template = JObj [(''b'', JFun 2)], store = [JObj [(''a'', JNum 1)]],
       currentIndex = 0, calls = [] \<rparr> =
   (Inr (JObj []),
    \<lparr> template = JObj [], store = [JObj [(''a'', JNum 1)]], currentIndex = 0, calls = [] \<rparr>) \<and>
   private_recall 0 JUndefined
     \<lparr> template = JObj [], store = [JObj [(''a'', JNum 1)]], currentIndex = 0, calls = [] \<rparr> =
   (Inr (JObj [(''a'', JNum 1)]),
    \<lparr> template = JObj [], store = [JObj [(''a'', JNum 1)]], currentIndex = 0, calls = [] \<rparr>)"
  by (simp add: private_template_def private_recall_def store_at_def deepCopy_def)

section \<open>Insert: the cursor\<close>

text \<open>
  C5. The claim: a successful insert at an index less than or equal to the current index
  increments the current index by one, and an insert above it leaves it unchanged.

  The code compares with \<open>index < _state.currentIndex\<close>. On \<open>[a, b]\<close> with the current
  index 1, \<open>insert(1, c)\<close> gives \<open>[a, c, b]\<close> and the current index is still 1.
\<close>

theorem insert_at_cursor_counterexample:
  "(1::int) \<le> currentIndex (fresh\<lparr>store := [rec_a, rec_b], currentIndex := 1\<rparr>) \<and>
   private_insert 1 rec_c JUndefined (fresh\<lparr>store := [rec_a, rec_b], currentIndex := 1\<rparr>) =
     (Inr rec_c, fresh\<lparr>store := [rec_a, rec_c, rec_b], currentIndex := 1\<rparr>)"
  by (simp add: private_insert_def store_at_def deepCopy_def splice_def
      fresh_def rec_a_def rec_b_def rec_c_def)

text \<open>
  C5, as the code has it. An insert that places the record at \<open>index\<close> (the index is
  the length, or a truthy record sits there) increments the current index by one when
  the index is strictly below it, and leaves it unchanged when the index is at or above
  it.
\<close>

theorem insert_cursor_shift:
  "deepCopy r = Inr st \<and> (index = int (length (store s)) \<or> truthy (store_at s index)) \<longrightarrow>
     fst (private_insert index r cb s) = Inr st \<and>
     (index < currentIndex s \<longrightarrow>
        currentIndex (snd (private_insert index r cb s)) = currentIndex s + 1) \<and>
     (currentIndex s \<le> index \<longrightarrow>
        currentIndex (snd (private_insert index r cb s)) = currentIndex s)"
proof (intro impI)
  assume h: "deepCopy r = Inr st \<and>
    (index = int (length (store s)) \<or> truthy (store_at s index))"
  let ?placed = "s\<lparr>store := splice (store s) index 0 [st]\<rparr>"
  have run: "private_insert index r cb s =
      (Inr st, handleCB cb st
         (if index < currentIndex s then ?placed\<lparr>currentIndex := currentIndex s + 1\<rparr>
          else ?placed))"
    using h by (auto simp add: private_insert_def Let_def)
  show "fst (private_insert index r cb s) = Inr st \<and>
     (index < currentIndex s \<longrightarrow>
        currentIndex (snd (private_insert index r cb s)) = currentIndex s + 1) \<and>
     (currentIndex s \<le> index \<longrightarrow>
        currentIndex (snd (private_insert index r cb s)) = currentIndex s)"
    by (simp add: run)
qed

theorem insert_cursor_shift_witness:
  "currentIndex (snd (private_insert 0 rec_c JUndefined
      (fresh\<lparr>store := [rec_a, rec_b], currentIndex := 1\<rparr>))) = 2 \<and>
   currentIndex (snd (private_insert 1 rec_c JUndefined
      (fresh\<lparr>store := [rec_a, rec_b], currentIndex := 1\<rparr>))) = 1 \<and>
   currentIndex (snd (private_insert 2 rec_c JUndefined
      (fresh\<lparr>store := [rec_a, rec_b], currentIndex := 1\<rparr>))) = 1"
  using insert_cursor_shift
      [of rec_c rec_c 0 "fresh\<lparr>store := [rec_a, rec_b], currentIndex := 1\<rparr>" JUndefined]
    insert_cursor_shift
      [of rec_c rec_c 1 "fresh\<lparr>store := [rec_a, rec_b], currentIndex := 1\<rparr>" JUndefined]
    insert_cursor_shift
      [of rec_c rec_c 2 "fresh\<lparr>store := [rec_a, rec_b], currentIndex := 1\<rparr>" JUndefined]
  by (simp add: deepCopy_def store_at_def fresh_def rec_a_def rec_b_def rec_c_def)

section \<open>Delete\<close>

text \<open>
  C6. The claim: \<open>delete(index)\<close> removes the record for every index in [0, length),
  shifts the later records down and decrements the current index by one, and fails
  without mutation for every other index.

  The test of \<open>delete\<close> is \<open>if (_state.store[index])\<close>. After \<open>store([null])\<close> the
  store holds one record, and \<open>delete(0)\<close> returns \<open>false\<close> and removes nothing.
\<close>

theorem delete_falsy_record_counterexample:
  "private_store (JArr [JNull]) JUndefined fresh
     = (Inr (JArr [JNull]), fresh\<lparr>store := [JNull], currentIndex := 0\<rparr>) \<and>
   (0::int) < int (length (store (fresh\<lparr>store := [JNull], currentIndex := 0\<rparr>))) \<and>
   private_delete 0 JUndefined (fresh\<lparr>store := [JNull], currentIndex := 0\<rparr>)
     = (Inr (JBool False), fresh\<lparr>store := [JNull], currentIndex := 0\<rparr>)"
  by (simp add: private_delete_def private_store_def index_last_def store_at_def deepCopy_def
      fresh_def)

text \<open>
  C6, as the code has it. For every index in [0, length) that holds a truthy record
  which \<open>deepCopy\<close> accepts (every object and array is one), \<open>delete(index)\<close> returns
  the copy of the record, removes the record, shifts the later records one position
  down and decrements the current index by one, wherever the current index is. For
  every index outside [0, length) it returns \<open>false\<close> and leaves the store and the
  current index as they are.
\<close>

theorem delete_effect:
  "(0 \<le> index \<and> index < int (length (store s)) \<and> truthy (store s ! nat index) \<and>
    deepCopy (store s ! nat index) = Inr c \<longrightarrow>
      private_delete index cb s =
        (Inr c, handleCB cb c
           (s\<lparr>store := take (nat index) (store s) @ drop (Suc (nat index)) (store s),
              currentIndex := currentIndex s - 1\<rparr>)) \<and>
      length (store (snd (private_delete index cb s))) = length (store s) - 1 \<and>
      (\<forall>j. j < nat index \<longrightarrow> store (snd (private_delete index cb s)) ! j = store s ! j) \<and>
      (\<forall>j. nat index \<le> j \<and> j < length (store s) - 1 \<longrightarrow>
           store (snd (private_delete index cb s)) ! j = store s ! Suc j) \<and>
      currentIndex (snd (private_delete index cb s)) = currentIndex s - 1) \<and>
   (index < 0 \<or> int (length (store s)) \<le> index \<longrightarrow>
      private_delete index cb s = (Inr (JBool False), handleCB cb (JBool False) s) \<and>
      store (snd (private_delete index cb s)) = store s \<and>
      currentIndex (snd (private_delete index cb s)) = currentIndex s)"
proof (intro conjI impI)
  assume h: "0 \<le> index \<and> index < int (length (store s)) \<and> truthy (store s ! nat index) \<and>
    deepCopy (store s ! nat index) = Inr c"
  then have at: "store_at s index = store s ! nat index"
    by (simp add: store_at_in_range)
  have sp: "splice (store s) index 1 [] =
      take (nat index) (store s) @ drop (Suc (nat index)) (store s)"
    using h by (simp add: splice_delete)
  show r: "private_delete index cb s =
        (Inr c, handleCB cb c
           (s\<lparr>store := take (nat index) (store s) @ drop (Suc (nat index)) (store s),
              currentIndex := currentIndex s - 1\<rparr>))"
    using h at sp by (simp add: private_delete_def)
  have n: "nat index < length (store s)" using h by linarith
  show "length (store (snd (private_delete index cb s))) = length (store s) - 1"
    using removed_nth(1) [OF n] by (simp add: r)
  show "\<forall>j. j < nat index \<longrightarrow> store (snd (private_delete index cb s)) ! j = store s ! j"
    using removed_nth(2) [OF n] by (simp add: r)
  show "\<forall>j. nat index \<le> j \<and> j < length (store s) - 1 \<longrightarrow>
           store (snd (private_delete index cb s)) ! j = store s ! Suc j"
    using removed_nth(3) [OF n] by (simp add: r)
  show "currentIndex (snd (private_delete index cb s)) = currentIndex s - 1"
    by (simp add: r)
next
  assume "index < 0 \<or> int (length (store s)) \<le> index"
  then have "store_at s index = JUndefined" by (rule store_at_out_of_range)
  then show r: "private_delete index cb s = (Inr (JBool False), handleCB cb (JBool False) s)"
    by (simp add: private_delete_def)
  show "store (snd (private_delete index cb s)) = store s" by (simp add: r)
  show "currentIndex (snd (private_delete index cb s)) = currentIndex s" by (simp add: r)
qed

theorem delete_effect_witness:
  "private_delete 1 JUndefined (fresh\<lparr>store := [rec_a, rec_b, rec_c], currentIndex := 2\<rparr>)
     = (Inr rec_b, fresh\<lparr>store := [rec_a, rec_c], currentIndex := 1\<rparr>) \<and>
   private_delete 1 JUndefined (fresh\<lparr>store := [rec_a, rec_b, rec_c], currentIndex := 0\<rparr>)
     = (Inr rec_b, fresh\<lparr>store := [rec_a, rec_c], currentIndex := - 1\<rparr>) \<and>
   private_delete 3 JUndefined (fresh\<lparr>store := [rec_a, rec_b, rec_c], currentIndex := 2\<rparr>)
     = (Inr (JBool False), fresh\<lparr>store := [rec_a, rec_b, rec_c], currentIndex := 2\<rparr>)"
  using delete_effect
      [of 1 "fresh\<lparr>store := [rec_a, rec_b, rec_c], currentIndex := 2\<rparr>" rec_b JUndefined]
    delete_effect
      [of 1 "fresh\<lparr>store := [rec_a, rec_b, rec_c], currentIndex := 0\<rparr>" rec_b JUndefined]
    delete_effect
      [of 3 "fresh\<lparr>store := [rec_a, rec_b, rec_c], currentIndex := 2\<rparr>" rec_b JUndefined]
  by (simp add: deepCopy_def fresh_def rec_a_def rec_b_def rec_c_def)

section \<open>What the public methods return\<close>

text \<open>
  C7. The claim: every public operation returns its result, the success value or the
  failure value, besides passing it to the callback.

  \<open>this.delete\<close> computes \<open>success\<close> and ends without returning it. On the store
  \<open>[a]\<close>, the private \<open>delete(0)\<close> returns the copy of \<open>a\<close>, and the public
  \<open>delete(0)\<close>, which makes the same change to the state, returns \<open>undefined\<close>.
\<close>

theorem public_delete_returns_undefined:
  "private_delete 0 JUndefined (fresh\<lparr>store := [rec_a], currentIndex := 0\<rparr>)
     = (Inr rec_a, fresh\<lparr>store := [], currentIndex := - 1\<rparr>) \<and>
   this_delete 0 JUndefined (fresh\<lparr>store := [rec_a], currentIndex := 0\<rparr>)
     = (Inr JUndefined, fresh\<lparr>store := [], currentIndex := - 1\<rparr>)"
  by (simp add: this_delete_def returns_nothing_def private_delete_def store_at_def
      deepCopy_def splice_def fresh_def rec_a_def)

section \<open>Undo and redo\<close>

lemma store_at_not_function:
  "\<forall>r \<in> set (store s). \<not> is_function r \<Longrightarrow> \<not> is_function (store_at s i)"
  by (auto simp add: store_at_def)

lemma recall_success_iff:
  assumes "checkTemplate (template s) = Inr True" and "\<forall>r \<in> set (store s). \<not> is_function r"
  shows "(\<exists>v. fst (private_recall i cb s) = Inr v \<and> truthy v) \<longleftrightarrow> truthy (store_at s i)"
proof
  assume "\<exists>v. fst (private_recall i cb s) = Inr v \<and> truthy v"
  then show "truthy (store_at s i)" by (auto intro: recall_success_index)
next
  assume t: "truthy (store_at s i)"
  then have "fst (private_recall i cb s) = Inr (json_copy (store_at s i))"
    using assms by (intro recall_succeeds store_at_not_function)
  with t show "\<exists>v. fst (private_recall i cb s) = Inr v \<and> truthy v" by simp
qed

lemma redo_counterexample_reachable:
  "snd (private_delete 1 JUndefined (snd (private_delete 2 JUndefined
     (snd (private_recall 0 JUndefined
       (snd (private_append rec_c JUndefined
         (snd (private_append rec_b JUndefined
           (snd (private_append rec_a JUndefined fresh)))))))))))
   = fresh\<lparr>store := [rec_a], currentIndex := - 2\<rparr>"
  by (simp add: private_recall_def private_append_def private_delete_def store_at_def
      deepCopy_def splice_def fresh_def rec_a_def rec_b_def rec_c_def)

text \<open>
  C8. The claim: undo succeeds if and only if the current index is above 0, redo if and
  only if it is below the last index, each being the recall of the neighbouring index;
  otherwise they fail and change nothing.

  The guard decides only whether the recall is attempted; the recall can still fail.
  After three appends, \<open>recall(0)\<close>, \<open>delete(2)\<close> and \<open>delete(1)\<close> the store is \<open>[a]\<close>
  and the current index is \<open>-2\<close>, below the last index 0, and \<open>redo()\<close> returns
  \<open>false\<close>.
\<close>

theorem redo_below_last_counterexample:
  "currentIndex (fresh\<lparr>store := [rec_a], currentIndex := - 2\<rparr>)
     < index_last (fresh\<lparr>store := [rec_a], currentIndex := - 2\<rparr>) \<and>
   private_redo JUndefined (fresh\<lparr>store := [rec_a], currentIndex := - 2\<rparr>)
     = (Inr (JBool False), fresh\<lparr>store := [rec_a], currentIndex := - 2\<rparr>)"
  by (simp add: private_redo_def private_recall_def index_last_def store_at_def fresh_def)

text \<open>
  C8, as the code has it. \<open>undo\<close> is the call \<open>recall(currentIndex - 1)\<close> when the
  current index is above 0, and \<open>redo\<close> the call \<open>recall(currentIndex + 1)\<close> when it
  is below the last index; in every other case the operation returns \<open>false\<close> and the
  state is unchanged. With a checked template and no function among the records, undo
  succeeds if and only if the current index is above 0 and a truthy record sits at the
  index before it, and redo if and only if the current index is below the last index and
  a truthy record sits at the index after it.
\<close>

theorem undo_redo_policy:
  "(0 < currentIndex s \<longrightarrow> private_undo cb s = private_recall (currentIndex s - 1) cb s) \<and>
   (currentIndex s \<le> 0 \<longrightarrow> private_undo cb s = (Inr (JBool False), s)) \<and>
   (currentIndex s < index_last s \<longrightarrow>
      private_redo cb s = private_recall (currentIndex s + 1) cb s) \<and>
   (index_last s \<le> currentIndex s \<longrightarrow> private_redo cb s = (Inr (JBool False), s)) \<and>
   (checkTemplate (template s) = Inr True \<and> (\<forall>r \<in> set (store s). \<not> is_function r) \<longrightarrow>
      ((\<exists>v. fst (private_undo cb s) = Inr v \<and> truthy v) \<longleftrightarrow>
         0 < currentIndex s \<and> truthy (store_at s (currentIndex s - 1))) \<and>
      ((\<exists>v. fst (private_redo cb s) = Inr v \<and> truthy v) \<longleftrightarrow>
         currentIndex s < index_last s \<and> truthy (store_at s (currentIndex s + 1))))"
proof (intro conjI impI)
  show "private_undo cb s = private_recall (currentIndex s - 1) cb s" if "0 < currentIndex s"
    using that by (simp add: private_undo_def)
  show "private_undo cb s = (Inr (JBool False), s)" if "currentIndex s \<le> 0"
    using that by (simp add: private_undo_def)
  show "private_redo cb s = private_recall (currentIndex s + 1) cb s"
    if "currentIndex s < index_last s"
    using that by (simp add: private_redo_def)
  show "private_redo cb s = (Inr (JBool False), s)" if "index_last s \<le> currentIndex s"
    using that by (simp add: private_redo_def)
next
  assume wf: "checkTemplate (template s) = Inr True \<and> (\<forall>r \<in> set (store s). \<not> is_function r)"
  show "(\<exists>v. fst (private_undo cb s) = Inr v \<and> truthy v) \<longleftrightarrow>
          0 < currentIndex s \<and> truthy (store_at s (currentIndex s - 1))"
  proof (cases "0 < currentIndex s")
    case True
    then show ?thesis
      using recall_success_iff [of s "currentIndex s - 1" cb] wf
      by (simp add: private_undo_def)
  next
    case False
    then show ?thesis by (simp add: private_undo_def)
  qed
  show "(\<exists>v. fst (private_redo cb s) = Inr v \<and> truthy v) \<longleftrightarrow>
          currentIndex s < index_last s \<and> truthy (store_at s (currentIndex s + 1))"
  proof (cases "currentIndex s < index_last s")
    case True
    then show ?thesis
      using recall_success_iff [of s "currentIndex s + 1" cb] wf
      by (simp add: private_redo_def)
  next
    case False
    then show ?thesis by (simp add: private_redo_def)
  qed
qed

theorem undo_redo_policy_witness:
  "private_undo JUndefined (fresh\<lparr>store := [rec_a, rec_b], currentIndex := 1\<rparr>)
     = private_recall 0 JUndefined (fresh\<lparr>store := [rec_a, rec_b], currentIndex := 1\<rparr>) \<and>
   private_redo JUndefined (fresh\<lparr>store := [rec_a, rec_b], currentIndex := 1\<rparr>)
     = (Inr (JBool False), fresh\<lparr>store := [rec_a, rec_b], currentIndex := 1\<rparr>) \<and>
   (\<exists>v. fst (private_undo JUndefined (fresh\<lparr>store := [rec_a, rec_b], currentIndex := 1\<rparr>))
          = Inr v \<and> truthy v) \<and>
   private_undo JUndefined (fresh\<lparr>store := [rec_a, rec_b], currentIndex := 0\<rparr>)
     = (Inr (JBool False), fresh\<lparr>store := [rec_a, rec_b], currentIndex := 0\<rparr>) \<and>
   private_redo JUndefined (fresh\<lparr>store := [rec_a, rec_b], currentIndex := 0\<rparr>)
     = private_recall 1 JUndefined (fresh\<lparr>store := [rec_a, rec_b], currentIndex := 0\<rparr>) \<and>
   (\<exists>v. fst (private_redo JUndefined (fresh\<lparr>store := [rec_a, rec_b], currentIndex := 0\<rparr>))
          = Inr v \<and> truthy v)"
  using undo_redo_policy [of "fresh\<lparr>store := [rec_a, rec_b], currentIndex := 1\<rparr>" JUndefined]
    undo_redo_policy [of "fresh\<lparr>store := [rec_a, rec_b], currentIndex := 0\<rparr>" JUndefined]
  by (auto simp add: index_last_def store_at_def fresh_def rec_a_def rec_b_def)

section \<open>The cursor after construction\<close>

text \<open>
  C9. The claim: without an initial cursor the current index starts at the last index
  of the initial store, or at \<open>-1\<close> when that store is empty or absent; and the
  parameter object is optional.

  The constructor takes \<open>params.currentIndex\<close> when it is above \<open>-1\<close> and \<open>-1\<close>
  otherwise; the initial store plays no part. Constructed with the store \<open>[a, b]\<close> and
  no current index, the manager starts at \<open>-1\<close>, while the last index is 1.
\<close>

theorem constructor_cursor_counterexample:
  "constructor (JObj [])
     (Some \<lparr> dev = JUndefined, store = JArr [rec_a, rec_b], currentIndex = None \<rparr>)
     = Inr (fresh\<lparr>store := [rec_a, rec_b]\<rparr>) \<and>
   currentIndex (fresh\<lparr>store := [rec_a, rec_b]\<rparr>) = - 1 \<and>
   index_last (fresh\<lparr>store := [rec_a, rec_b]\<rparr>) = 1"
  by (simp add: constructor_def index_last_def fresh_def)

text \<open>
  C9, as the code has it. Given a parameter object without a current index (and a
  template other than \<open>null\<close>), the constructor returns a manager whose current index
  is \<open>-1\<close>, whatever the initial store, which is the array of the parameters or empty.
\<close>

theorem constructor_default_cursor:
  "tmpl \<noteq> JNull \<and> params.currentIndex p = None \<longrightarrow>
     (\<exists>s. constructor tmpl (Some p) = Inr s \<and> currentIndex s = - 1 \<and>
          store s = (case params.store p of JArr xs \<Rightarrow> xs | _ \<Rightarrow> []))"
proof (intro impI)
  assume h: "tmpl \<noteq> JNull \<and> params.currentIndex p = None"
  then have "\<exists>ok. checkTemplate tmpl = Inr ok"
    by (cases tmpl) auto
  then obtain ok where ok: "checkTemplate tmpl = Inr ok" ..
  let ?s = "\<lparr> template = (if ok then tmpl else JObj []),
              store = (case params.store p of JArr xs \<Rightarrow> xs | _ \<Rightarrow> []),
              currentIndex = - 1, calls = [] \<rparr>"
  have "constructor tmpl (Some p) = Inr ?s"
    using h ok by (simp add: constructor_def)
  then show "\<exists>s. constructor tmpl (Some p) = Inr s \<and> currentIndex s = - 1 \<and>
          store s = (case params.store p of JArr xs \<Rightarrow> xs | _ \<Rightarrow> [])"
    by simp
qed

theorem constructor_default_cursor_witness:
  "\<exists>s. constructor (JObj [(''a'', JFun 1)])
          (Some \<lparr> dev = JBool True, store = JArr [rec_a, rec_b], currentIndex = None \<rparr>) = Inr s \<and>
        currentIndex s = - 1 \<and> store s = [rec_a, rec_b]"
  using constructor_default_cursor
    [of "JObj [(''a'', JFun 1)]"
        "\<lparr> dev = JBool True, store = JArr [rec_a, rec_b], currentIndex = None \<rparr>"]
  by simp

section \<open>Falsy records\<close>

text \<open>
  C10. A falsy record at an index inside the store makes \<open>recall\<close>, \<open>delete\<close> and
  \<open>index.set\<close> fail at that index exactly as they do at an index outside the store:
  the three test the element, \<open>_state.store[index]\<close>, and not the range. Such a
  record (\<open>null\<close>, \<open>0\<close>, \<open>false\<close>, the empty string) enters the store through the
  store setter or the initial store of the constructor.
\<close>

theorem falsy_record_rejected:
  "(0 \<le> i \<and> i < int (length (store s)) \<and> \<not> truthy (store s ! nat i) \<and>
    (j < 0 \<or> int (length (store s)) \<le> j) \<longrightarrow>
      private_recall i cb s = (Inr (JBool False), handleCB cb (JBool False) s) \<and>
      private_recall i cb s = private_recall j cb s \<and>
      private_delete i cb s = (Inr (JBool False), handleCB cb (JBool False) s) \<and>
      private_delete i cb s = private_delete j cb s \<and>
      index_set i s = (JUndefined, s) \<and>
      index_set i s = index_set j s) \<and>
   (v = JNull \<or> v = JNum 0 \<or> v = JBool False \<or> v = JStr [] \<longrightarrow>
      \<not> truthy v \<and>
      store (snd (private_store (JArr [v]) cb s)) = [v] \<and>
      (\<exists>s'. constructor JUndefined
               (Some \<lparr> dev = JUndefined, store = JArr [v], currentIndex = None \<rparr>) = Inr s' \<and>
            store s' = [v]))"
proof (intro conjI impI)
  assume h: "0 \<le> i \<and> i < int (length (store s)) \<and> \<not> truthy (store s ! nat i) \<and>
    (j < 0 \<or> int (length (store s)) \<le> j)"
  then have fi: "\<not> truthy (store_at s i)" by (simp add: store_at_def)
  from h have fj: "\<not> truthy (store_at s j)" by (auto simp add: store_at_def)
  show "private_recall i cb s = (Inr (JBool False), handleCB cb (JBool False) s)"
    using fi by (rule recall_rejects)
  show "private_recall i cb s = private_recall j cb s"
    using fi fj by (simp add: recall_rejects)
  show "private_delete i cb s = (Inr (JBool False), handleCB cb (JBool False) s)"
    using fi by (simp add: private_delete_def)
  show "private_delete i cb s = private_delete j cb s"
    using fi fj by (simp add: private_delete_def)
  show "index_set i s = (JUndefined, s)"
    using fi by (simp add: index_set_def)
  show "index_set i s = index_set j s"
    using fi fj by (simp add: index_set_def)
next
  assume v: "v = JNull \<or> v = JNum 0 \<or> v = JBool False \<or> v = JStr []"
  show "\<not> truthy v" using v by auto
  show "store (snd (private_store (JArr [v]) cb s)) = [v]"
    using v by (auto simp add: private_store_def deepCopy_def Let_def)
  show "\<exists>s'. constructor JUndefined
               (Some \<lparr> dev = JUndefined, store = JArr [v], currentIndex = None \<rparr>) = Inr s' \<and>
            store s' = [v]"
    by (simp add: constructor_def)
qed

theorem falsy_record_rejected_witness:
  "private_store (JArr [rec_a, JNull]) JUndefined fresh
     = (Inr (JArr [rec_a, JNull]), fresh\<lparr>store := [rec_a, JNull], currentIndex := 1\<rparr>) \<and>
   private_recall 1 JUndefined (fresh\<lparr>store := [rec_a, JNull], currentIndex := 1\<rparr>)
     = (Inr (JBool False), fresh\<lparr>store := [rec_a, JNull], currentIndex := 1\<rparr>) \<and>
   private_delete 1 JUndefined (fresh\<lparr>store := [rec_a, JNull], currentIndex := 1\<rparr>)
     = private_delete 2 JUndefined (fresh\<lparr>store := [rec_a, JNull], currentIndex := 1\<rparr>) \<and>
   index_set 1 (fresh\<lparr>store := [rec_a, JNull], currentIndex := 0\<rparr>)
     = (JUndefined, fresh\<lparr>store := [rec_a, JNull], currentIndex := 0\<rparr>) \<and>
   store (snd (private_store (JArr [JNum 0]) JUndefined fresh)) = [JNum 0]"
  using falsy_record_rejected
      [of 1 "fresh\<lparr>store := [rec_a, JNull], currentIndex := 1\<rparr>" 2 JUndefined "JNum 0"]
    falsy_record_rejected
      [of 1 "fresh\<lparr>store := [rec_a, JNull], currentIndex := 0\<rparr>" 2 JUndefined "JNum 0"]
    falsy_record_rejected
      [of 1 fresh 2 JUndefined "JNum 0"]
  by (auto simp add: private_store_def deepCopy_def index_last_def fresh_def rec_a_def)

section \<open>Further properties\<close>

subsection \<open>The template that the setter commits\<close>

lemma is_function_json_copy [simp]: "is_function (json_copy v) = is_function v"
  by (cases v) simp_all

lemma json_copy_elems_no_function: "x \<in> set (json_copy_elems xs) \<Longrightarrow> \<not> is_function x"
  by (induction xs) (auto split: if_splits elim: json_absent.elims)

lemma json_copy_props_no_function: "p \<in> set (json_copy_props ps) \<Longrightarrow> \<not> is_function (snd p)"
  by (induction ps) (auto split: if_splits elim: json_absent.elims)

lemma checked_copy_is_empty:
  assumes "checkTemplate (json_copy t) = Inr True"
  shows "json_copy t = JObj [] \<or> json_copy t = JArr []"
proof (cases t)
  case (JObj ps)
  have "json_copy_props ps = []"
  proof (cases "json_copy_props ps")
    case (Cons p qs)
    then have "p \<in> set (json_copy_props ps)" by simp
    then have "\<not> is_function (snd p)" by (rule json_copy_props_no_function)
    with assms JObj Cons show ?thesis by simp
  qed simp
  with JObj show ?thesis by simp
next
  case (JArr xs)
  have "json_copy_elems xs = []"
  proof (cases "json_copy_elems xs")
    case (Cons x ys)
    then have "x \<in> set (json_copy_elems xs)" by simp
    then have "\<not> is_function x" by (rule json_copy_elems_no_function)
    with assms JArr Cons show ?thesis by simp
  qed simp
  with JArr show ?thesis by simp
qed (use assms in simp_all)

text \<open>
  Whatever the setter is given, a template it commits has no key: a function never
  survives \<open>deepCopy\<close>, and \<open>checkTemplate\<close> accepts functions only.
\<close>

theorem template_setter_commits_no_handler:
  "fst (private_template tmpl cb s) = Inr v \<and> v \<noteq> JBool False \<longrightarrow>
     template (snd (private_template tmpl cb s)) = v \<and> (v = JObj [] \<or> v = JArr [])"
proof (intro impI)
  assume h: "fst (private_template tmpl cb s) = Inr v \<and> v \<noteq> JBool False"
  then have na: "\<not> json_absent tmpl"
    by (auto simp add: private_template_def deepCopy_def)
  then have dc: "deepCopy tmpl = Inr (json_copy tmpl)" by (simp add: deepCopy_def)
  from h dc have ok: "checkTemplate (json_copy tmpl) = Inr True"
    by (auto simp add: private_template_def split: sum.splits if_splits)
  with h dc have "v = json_copy tmpl" "template (snd (private_template tmpl cb s)) = v"
    by (auto simp add: private_template_def)
  with checked_copy_is_empty [OF ok] show
    "template (snd (private_template tmpl cb s)) = v \<and> (v = JObj [] \<or> v = JArr [])"
    by simp
qed

theorem template_setter_commits_no_handler_witness:
  "template (snd (private_template (JObj [(''a'', JFun 1), (''b'', JFun 2)]) JUndefined fresh))
     = JObj []"
  using template_setter_commits_no_handler
    [of "JObj [(''a'', JFun 1), (''b'', JFun 2)]" JUndefined fresh "JObj []"]
  by (simp add: private_template_def deepCopy_def)

subsection \<open>The template of a manager\<close>

lemma template_preserved:
  "template (snd (private_append r cb s)) = template s"
  "template (snd (private_delete i cb s)) = template s"
  "template (snd (private_insert i r cb s)) = template s"
  "template (snd (private_store st cb s)) = template s"
  "template (snd (private_undo cb s)) = template s"
  "template (snd (private_redo cb s)) = template s"
  "template (snd (index_set i s)) = template s"
  by (simp_all add: private_append_def private_delete_def private_insert_def private_store_def
      private_undo_def private_redo_def index_set_def Let_def split: sum.splits jsval.splits)

lemma replace_template: "template (snd (private_replace i r cb s)) = template s"
  by (cases "private_delete i JUndefined s")
     (use template_preserved(2) [of i JUndefined s] in
       \<open>auto simp add: private_replace_def template_preserved split: sum.splits\<close>)

text \<open>
  The template of a constructed manager passes \<open>checkTemplate\<close>, and so does the
  template after every operation.
\<close>

theorem template_always_checked:
  "(constructor tmpl ps = Inr s0 \<longrightarrow> checkTemplate (template s0) = Inr True) \<and>
   (checkTemplate (template s) = Inr True \<longrightarrow>
      checkTemplate (template (snd (private_template tmpl cb s))) = Inr True \<and>
      checkTemplate (template (snd (private_store st cb s))) = Inr True \<and>
      checkTemplate (template (snd (private_append r cb s))) = Inr True \<and>
      checkTemplate (template (snd (private_recall i cb s))) = Inr True \<and>
      checkTemplate (template (snd (private_delete i cb s))) = Inr True \<and>
      checkTemplate (template (snd (private_insert i r cb s))) = Inr True \<and>
      checkTemplate (template (snd (private_replace i r cb s))) = Inr True \<and>
      checkTemplate (template (snd (private_undo cb s))) = Inr True \<and>
      checkTemplate (template (snd (private_redo cb s))) = Inr True \<and>
      checkTemplate (template (snd (index_set i s))) = Inr True)"
proof (intro conjI impI)
  assume "constructor tmpl ps = Inr s0"
  then show "checkTemplate (template s0) = Inr True"
    by (auto simp add: constructor_def split: option.splits sum.splits if_splits)
next
  assume ok: "checkTemplate (template s) = Inr True"
  show "checkTemplate (template (snd (private_template tmpl cb s))) = Inr True"
    using ok by (auto simp add: private_template_def split: sum.splits)
qed (simp_all add: template_preserved replace_template)

theorem template_always_checked_witness:
  "checkTemplate (template fresh) = Inr True \<and>
   checkTemplate (template (snd (private_template (JObj [(''a'', JNum 5)]) JUndefined fresh)))
     = Inr True"
  using template_always_checked
      [of JUndefined "Some \<lparr> dev = JUndefined, store = JUndefined, currentIndex = None \<rparr>" fresh]
    template_always_checked [of "JObj [(''a'', JNum 5)]" None fresh fresh JUndefined]
  by (simp add: fresh_is_constructed)

subsection \<open>The handlers that recall calls\<close>

lemma dispatch_calls:
  "\<forall>k \<in> set ks. is_function (get_prop t k) \<Longrightarrow>
   snd (dispatch t success ks tr) = tr @ concat (map (handler_call t success) ks)"
proof (induction ks arbitrary: tr)
  case Nil
  then show ?case by simp
next
  case (Cons k ks)
  then obtain f where "get_prop t k = JFun f"
    by (cases "get_prop t k") auto
  with Cons show ?case by (simp add: handler_call_def)
qed

text \<open>
  A recall that succeeds calls the handler of every key of the template, once and in the
  order of the keys, with the value the copy of the record has under the key
  (\<open>undefined\<close> when it has none). The keys of the record play no part.
\<close>

theorem recall_calls_every_handler:
  "checkTemplate (template s) = Inr True \<and> object_keys (template s) = Inr ks \<and>
   truthy (store_at s i) \<and> \<not> is_function (store_at s i) \<longrightarrow>
     calls (snd (private_recall i JUndefined s)) =
       calls s @ concat (map (handler_call (template s) (json_copy (store_at s i))) ks) \<and>
     (\<forall>k \<in> set ks. \<exists>f. handler_call (template s) (json_copy (store_at s i)) k =
                          [Invoke f (get_prop (json_copy (store_at s i)) k)])"
proof (intro impI conjI)
  assume h: "checkTemplate (template s) = Inr True \<and> object_keys (template s) = Inr ks \<and>
    truthy (store_at s i) \<and> \<not> is_function (store_at s i)"
  then have fs: "\<forall>k \<in> set ks. is_function (get_prop (template s) k)"
    using checked_template_keys [of "template s"] by auto
  obtain e tr where d: "dispatch (template s) (json_copy (store_at s i)) ks (calls s) = (e, tr)"
    by (cases "dispatch (template s) (json_copy (store_at s i)) ks (calls s)")
  from dispatch_functions [OF fs, of "json_copy (store_at s i)" "calls s"] d
  have e: "e = None" by simp
  from dispatch_calls [OF fs, of "json_copy (store_at s i)" "calls s"] d
  have tr: "tr = calls s @ concat (map (handler_call (template s) (json_copy (store_at s i))) ks)"
    by simp
  from h d e have "calls (snd (private_recall i JUndefined s)) = tr"
    by (simp add: private_recall_def deepCopy_truthy)
  with tr show "calls (snd (private_recall i JUndefined s)) =
       calls s @ concat (map (handler_call (template s) (json_copy (store_at s i))) ks)"
    by simp
  show "\<forall>k \<in> set ks. \<exists>f. handler_call (template s) (json_copy (store_at s i)) k =
                          [Invoke f (get_prop (json_copy (store_at s i)) k)]"
  proof
    fix k assume "k \<in> set ks"
    with fs obtain f where "get_prop (template s) k = JFun f"
      by (cases "get_prop (template s) k") auto
    then show "\<exists>f. handler_call (template s) (json_copy (store_at s i)) k =
                          [Invoke f (get_prop (json_copy (store_at s i)) k)]"
      by (simp add: handler_call_def)
  qed
qed

theorem recall_calls_every_handler_witness:
  "calls (snd (private_recall 0 JUndefined
      \<lparr> template = JObj [(''x'', JFun 1), (''y'', JFun 2)], store = [rec_a],
        currentIndex = - 1, calls = [] \<rparr>)) = [Invoke 1 (JNum 1), Invoke 2 JUndefined]"
  using recall_calls_every_handler
    [of "\<lparr> template = JObj [(''x'', JFun 1), (''y'', JFun 2)], store = [rec_a],
        currentIndex = - 1, calls = [] \<rparr>" "[''x'', ''y'']" 0]
  by (simp add: store_at_def rec_a_def handler_call_def)

subsection \<open>The value of the public methods\<close>

text \<open>
  \<open>delete\<close>, \<open>insert\<close>, \<open>replace\<close>, \<open>undo\<close> and \<open>redo\<close> return \<open>undefined\<close>
  whenever they return.
\<close>

theorem public_methods_return_undefined:
  "(fst (this_delete i cb s) = Inr v \<longrightarrow> v = JUndefined) \<and>
   (fst (this_insert i r cb s) = Inr v \<longrightarrow> v = JUndefined) \<and>
   (fst (this_replace i r cb s) = Inr v \<longrightarrow> v = JUndefined) \<and>
   (fst (this_undo cb s) = Inr v \<longrightarrow> v = JUndefined) \<and>
   (fst (this_redo cb s) = Inr v \<longrightarrow> v = JUndefined)"
  by (auto simp add: this_delete_def this_insert_def this_replace_def this_undo_def
      this_redo_def returns_nothing_def split: prod.splits sum.splits)

theorem public_methods_return_undefined_witness:
  "fst (this_insert 0 rec_a JUndefined fresh) = Inr JUndefined \<and>
   fst (this_undo JUndefined fresh) = Inr JUndefined"
  using public_methods_return_undefined [of 0 JUndefined fresh JUndefined rec_a]
  by (simp add: this_insert_def this_undo_def private_insert_def private_undo_def
      returns_nothing_def deepCopy_def store_at_def fresh_def rec_a_def)

subsection \<open>Append\<close>

text \<open>
  \<open>append\<close> of a record that \<open>deepCopy\<close> accepts puts the copy at the tail and the
  current index on it.
\<close>

theorem append_cursor_last:
  "deepCopy r = Inr c \<longrightarrow>
     private_append r cb s =
       (Inr c, handleCB cb c (s\<lparr>store := store s @ [c], currentIndex := int (length (store s))\<rparr>)) \<and>
     currentIndex (snd (private_append r cb s)) = index_last (snd (private_append r cb s))"
  by (simp add: private_append_def index_last_def Let_def)

theorem append_cursor_last_witness:
  "private_append rec_b JUndefined (fresh\<lparr>store := [rec_a], currentIndex := 0\<rparr>)
     = (Inr rec_b, fresh\<lparr>store := [rec_a, rec_b], currentIndex := 1\<rparr>)"
  using append_cursor_last [of rec_b rec_b JUndefined "fresh\<lparr>store := [rec_a], currentIndex := 0\<rparr>"]
  by (simp add: deepCopy_def fresh_def rec_a_def rec_b_def)

end
